theory Spec2Isabelle
  imports Main "HOL-Library.AList"
begin

section \<open>The kuja RPC server: path routing\<close>

text \<open>
  Go strings are byte sequences; they are modelled as \<open>string\<close> (a list of 8-bit
  characters). \<open>strings.HasPrefix s "/"\<close> and \<open>strings.HasSuffix s "/"\<close> test the first and
  the last byte; \<open>s[1:]\<close> and \<open>s[:len(s)-1]\<close> are \<open>drop 1\<close> and \<open>take (length s - 1)\<close>.
\<close>

type_synonym bytes = string

definition HasPrefix :: "string \<Rightarrow> string \<Rightarrow> bool" where
  "HasPrefix s p = (take (length p) s = p)"

definition HasSuffix :: "string \<Rightarrow> string \<Rightarrow> bool" where
  "HasSuffix s p = (length p \<le> length s \<and> drop (length s - length p) s = p)"

text \<open>
  The scanning loop of \<open>getServiceMethod\<close>:
  \<^verbatim>\<open>for i := 0; i < len(s); i++ { if s[i] == '/' { return s[:i], s[i+1:] } }; return "", ""\<close>
\<close>

function scanSlash :: "string \<Rightarrow> nat \<Rightarrow> string \<times> string" where
  "scanSlash s i =
     (if i < length s
      then (if s ! i = CHR ''/'' then (take i s, drop (i + 1) s) else scanSlash s (i + 1))
      else ([], []))"
  by pat_completeness auto
termination
  by (relation "measure (\<lambda>(s, i). length s - i)") auto

declare scanSlash.simps [simp del]

definition getServiceMethod :: "string \<Rightarrow> string \<times> string" where
  "getServiceMethod s0 =
     (let s1 = (if HasPrefix s0 ''/'' then drop 1 s0 else s0);
          s2 = (if HasSuffix s1 ''/'' then take (length s1 - 1) s1 else s1)
      in scanSlash s2 0)"


section \<open>Data model of the server\<close>

text \<open>
  Modelled from the spec: the error type \<open>Errors\<close> and its constructor \<open>Error(code, msg)\<close>
  live in a file that is not part of the sources at hand. The spec describes it as a
  distinguished error carrying an explicit status code that is unwrapped to (status,
  message); every other Go \<open>error\<close> value only has its message.
\<close>

datatype error = PlainError string | StatusError int string

fun ErrorMsg :: "error \<Rightarrow> string" where
  "ErrorMsg (PlainError msg) = msg"
| "ErrorMsg (StatusError code msg) = msg"

definition Error :: "int \<Rightarrow> string \<Rightarrow> error" where
  "Error code msg = StatusError code msg"

text \<open>
  \<open>Metadata\<close> is \<open>map[string]string\<close>. It is kept as an association list with one entry per
  key (\<open>AList.update\<close> is the assignment \<open>m[k] = v\<close>); a \<open>range\<close> loop visits the entries in
  the order of the list, which stands for the order Go picks.
\<close>

type_synonym Metadata = "(string \<times> string) list"

text \<open>\<open>LogErrorFunc\<close>: the callback is side effect only, so it is identified by a tag.\<close>

datatype LogErrorFunc = defaulLogErr | CustomLogErr nat

text \<open>
  Everything a request does to the outside world is recorded, in order, as a list of
  events: the calls on the \<open>http.ResponseWriter\<close>, the calls into the codec, the
  compressor and the bound method, the goroutine started for the audit callback, and a
  run-time panic (which ends the handler).
\<close>

datatype event =
    HeaderSet string string
  | WriteHeader int
  | Write bytes
  | CallDecode
  | BodyClose
  | CallFunc
  | CallMarshal
  | CallSnappy
  | CallEncode
  | GoLogError LogErrorFunc string string string int error
  | Panic

text \<open>
  The codec interface \<open>encoder.Encoder\<close>. \<open>Decode\<close> reads the body into the zero argument
  value; \<open>Encode\<close> writes to the response writer (the chunks it writes, in order) and returns
  an error or nil. The type \<open>'v\<close> stands for the Go values passed as \<open>interface{}\<close>.
\<close>

record 'v Encoder =
  Decode :: "bytes \<Rightarrow> 'v \<Rightarrow> error + 'v"
  Marshal :: "'v \<Rightarrow> error + bytes"
  Encode :: "'v \<Rightarrow> bytes list \<times> error option"

text \<open>
  The method descriptor. \<open>ArgType\<close> and \<open>ReplyType\<close> give the zero values that
  \<open>reflect.New\<close> allocates; \<open>Func\<close> is the bound method called with the request metadata,
  the response metadata, the argument and the reply: it returns its error (or nil), the
  reply it filled in and the response metadata it left.
\<close>

record 'v methodType =
  ArgType :: 'v
  ReplyType :: 'v
  Func :: "Metadata \<Rightarrow> Metadata \<Rightarrow> 'v \<Rightarrow> 'v \<Rightarrow> error option \<times> 'v \<times> Metadata"

record Request =
  Method :: string
  Path :: string
  Header :: "(string \<times> string list) list"
  Body :: bytes

text \<open>
  The request context \<open>Ctx\<close>. The pointers \<open>mt\<close>, \<open>req\<close> and the interface \<open>encoder\<close> are nil
  in a context made by the pool, hence options. The response writer \<open>w\<close> is the event list;
  \<open>rcvr\<close> is opaque and \<open>handlers\<close> is only read by the middleware chain, so both are left
  out.
\<close>

record 'v Ctx =
  ReqMetadata :: Metadata
  RespMetadata :: Metadata
  ServiceID :: string
  ServiceName :: string
  MethodName :: string
  returnValues :: "error option list"
  ctx_logError :: LogErrorFunc
  isResp :: bool
  ctx_mt :: "'v methodType option"
  ctx_req :: "Request option"
  ctx_encoder :: "'v Encoder option"
  ctx_snappy :: bool

text \<open>
  A middleware \<open>Handler\<close> gets the context and the request, may write to the response and
  change the context, and returns an error or nil.
\<close>

type_synonym 'v Handler = "'v Ctx \<Rightarrow> Request \<Rightarrow> error option \<times> 'v Ctx \<times> event list"

record 'v service =
  service_id :: string
  service_name :: string
  service_method :: "(string \<times> 'v methodType) list"
  service_handlers :: "'v Handler list"

record Node =
  node_Id :: string
  node_Name :: string
  node_Host :: string
  node_Port :: string
  node_Address :: string

record Registry =
  Register :: "Node \<Rightarrow> error option"
  Deregister :: "string \<Rightarrow> string \<Rightarrow> error option"

text \<open>
  The server. \<open>pool\<close> is the free list of the \<open>sync.Pool\<close>: \<open>Put\<close> pushes a context, \<open>Get\<close> pops
  the most recent one and calls \<open>New\<close> when the list is empty. \<open>serviceMap\<close> is an association
  list, ranged over in list order.
\<close>

record 'v Server =
  pool :: "'v Ctx list"
  middleware :: "'v Handler list"
  serviceMap :: "(string \<times> 'v service) list"
  encoder :: "'v Encoder"
  snappy :: bool
  logError :: LogErrorFunc
  registry :: "Registry option"

definition NewServer :: "'v Encoder \<Rightarrow> 'v Server" where
  "NewServer jsonEncoder =
     \<lparr>pool = [], middleware = [], serviceMap = [], encoder = jsonEncoder, snappy = False,
      logError = defaulLogErr, registry = None\<rparr>"

definition pool_New :: "'v Server \<Rightarrow> 'v Ctx" where
  "pool_New server =
     \<lparr>ReqMetadata = [], RespMetadata = [], ServiceID = [], ServiceName = [],
      MethodName = [], returnValues = [None], ctx_logError = logError server,
      isResp = False, ctx_mt = None, ctx_req = None, ctx_encoder = None,
      ctx_snappy = False\<rparr>"

definition pool_Get :: "'v Server \<Rightarrow> 'v Ctx \<times> 'v Server" where
  "pool_Get server =
     (case pool server of
        [] \<Rightarrow> (pool_New server, server)
      | c # cs \<Rightarrow> (c, server\<lparr>pool := cs\<rparr>))"

definition pool_Put :: "'v Server \<Rightarrow> 'v Ctx \<Rightarrow> 'v Server" where
  "pool_Put server c = server\<lparr>pool := c # pool server\<rparr>"

definition Use :: "'v Server \<Rightarrow> 'v Handler list \<Rightarrow> 'v Server" where
  "Use server h = server\<lparr>middleware := middleware server @ h\<rparr>"

definition Snappy :: "'v Server \<Rightarrow> bool \<Rightarrow> 'v Server" where
  "Snappy server enable = server\<lparr>snappy := enable\<rparr>"

definition SetRegistry :: "'v Server \<Rightarrow> Registry option \<Rightarrow> 'v Server" where
  "SetRegistry server r = server\<lparr>registry := r\<rparr>"

definition SetEncoder :: "'v Server \<Rightarrow> 'v Encoder \<Rightarrow> 'v Server" where
  "SetEncoder server enc = server\<lparr>encoder := enc\<rparr>"

definition SetLogError :: "'v Server \<Rightarrow> LogErrorFunc \<Rightarrow> 'v Server" where
  "SetLogError server fn = server\<lparr>logError := fn\<rparr>"

section \<open>Request handling\<close>

text \<open>
  \<open>respError\<close>: a status-carrying error is written with its own status, any other error
  with 500; the audit callback is started with \<open>go\<close> before the response is written.
\<close>

definition respError :: "error \<Rightarrow> 'v Ctx \<Rightarrow> 'v Ctx \<times> event list" where
  "respError err ctx =
     (case err of
        StatusError code msg \<Rightarrow>
          (ctx\<lparr>isResp := True\<rparr>,
           [GoLogError (ctx_logError ctx) (ServiceID ctx) (ServiceName ctx) (MethodName ctx) code err,
            WriteHeader code, Write msg])
      | PlainError msg \<Rightarrow>
          (ctx\<lparr>isResp := True\<rparr>,
           [GoLogError (ctx_logError ctx) (ServiceID ctx) (ServiceName ctx) (MethodName ctx) 500 err,
            WriteHeader 500, Write msg]))"

text \<open>
  \<open>serve\<close>: decode, call, encode. \<open>snappyEncode\<close> is the compressor \<open>snappy.Encode(nil, data)\<close>
  of the snappy library. A nil \<open>mt\<close>, \<open>req\<close> or \<open>encoder\<close> is dereferenced before anything else
  happens, which panics.
\<close>

definition serve :: "(bytes \<Rightarrow> error + bytes) \<Rightarrow> 'v Ctx \<Rightarrow> error option \<times> 'v Ctx \<times> event list" where
  "serve snappyEncode ctx =
     (case ctx_mt ctx of
        None \<Rightarrow> (None, ctx, [Panic])
      | Some m \<Rightarrow>
     (case ctx_req ctx of
        None \<Rightarrow> (None, ctx, [Panic])
      | Some req \<Rightarrow>
     (case ctx_encoder ctx of
        None \<Rightarrow> (None, ctx, [Panic])
      | Some enc \<Rightarrow>
     (case Decode enc (Body req) (ArgType m) of
        Inl derr \<Rightarrow>
          (Some (Error 500 ''unable to encode response''), ctx, [CallDecode, BodyClose])
      | Inr argv \<Rightarrow>
          (case Func m (ReqMetadata ctx) (RespMetadata ctx) argv (ReplyType m) of
             (ret, replyv, respmd) \<Rightarrow>
               let ctx1 = ctx\<lparr>RespMetadata := respmd, returnValues := [ret]\<rparr>;
                   tr1 = [CallDecode, BodyClose, CallFunc]
               in (case ret of
                     Some e \<Rightarrow> (Some e, ctx1, tr1)
                   | None \<Rightarrow>
                       let tr2 = tr1 @ map (\<lambda>(name, val). HeaderSet name val) (RespMetadata ctx1)
                       in if ctx_snappy ctx1
                          then (case Marshal enc replyv of
                                  Inl e \<Rightarrow> (Some e, ctx1, tr2 @ [CallMarshal])
                                | Inr data \<Rightarrow>
                                    (case snappyEncode data of
                                       Inl e \<Rightarrow> (Some e, ctx1, tr2 @ [CallMarshal, CallSnappy])
                                     | Inr data' \<Rightarrow>
                                         (None, ctx1\<lparr>isResp := True\<rparr>,
                                          tr2 @ [CallMarshal, CallSnappy,
                                                 HeaderSet ''Snappy'' ''true'',
                                                 WriteHeader 200, Write data'])))
                          else (None, ctx1\<lparr>isResp := True\<rparr>,
                                tr2 @ [WriteHeader 200, CallEncode]
                                    @ map Write (fst (Encode enc replyv)))))))))"

text \<open>
  The loop \<open>for name, vals := range req.Header { ctx.ReqMetadata[name] = vals[0] }\<close>:
  \<open>vals[0]\<close> on an empty slice is an index out of range, a panic (\<open>None\<close>).
\<close>

fun copyHeader :: "(string \<times> string list) list \<Rightarrow> Metadata \<Rightarrow> Metadata option" where
  "copyHeader [] md = Some md"
| "copyHeader ((name, vals) # rest) md =
     (case vals of
        [] \<Rightarrow> None
      | v # _ \<Rightarrow> copyHeader rest (AList.update name v md))"

definition ServeHTTP ::
  "(bytes \<Rightarrow> error + bytes) \<Rightarrow> 'v Server \<Rightarrow> Request \<Rightarrow> 'v Server \<times> event list" where
  "ServeHTTP snappyEncode server req =
     (if Method req \<noteq> ''POST''
      then (server, [HeaderSet ''Content-Type'' ''text/plain; charset=utf-8'',
                     WriteHeader 405, Write ''405 must POST\<newline>''])
      else
     (case getServiceMethod (Path req) of
        (serviceName, methodName) \<Rightarrow>
     if serviceName = [] \<or> methodName = []
     then (server, [WriteHeader 404, Write ''rpc: can't find service or method''])
     else
     (case pool_Get server of
        (ctx0, server1) \<Rightarrow>
     (case copyHeader (Header req) (ReqMetadata ctx0) of
        None \<Rightarrow> (server1, [Panic])
      | Some md \<Rightarrow>
     let ctx1 = ctx0\<lparr>ReqMetadata := md\<rparr> in
     (case map_of (serviceMap server1) serviceName of
        None \<Rightarrow> (server1, [WriteHeader 404, Write (''rpc: can't find service '' @ serviceName)])
      | Some s \<Rightarrow>
     (case map_of (service_method s) methodName of
        None \<Rightarrow> (server1, [WriteHeader 404, Write (''rpc: can't find method '' @ methodName)])
      | Some mt \<Rightarrow>
     let ctx2 = ctx1\<lparr>ctx_mt := Some mt, ctx_req := Some req,
                     ctx_encoder := Some (encoder server1), ctx_snappy := snappy server1,
                     ServiceID := service_id s, ServiceName := serviceName,
                     MethodName := methodName\<rparr>
     in (case (case service_handlers s of
                 h # _ \<Rightarrow> h ctx2 req
               | [] \<Rightarrow> serve snappyEncode ctx2) of
           (err, ctx3, tr) \<Rightarrow>
             (case err of
                None \<Rightarrow> (pool_Put server1 ctx3, tr)
              | Some e \<Rightarrow>
                  if \<not> isResp ctx3
                  then (case respError e ctx3 of
                          (ctx4, tr') \<Rightarrow> (pool_Put server1 ctx4, tr @ tr'))
                  else (pool_Put server1 ctx3, tr)))))))))"


section \<open>Discovery: start and stop\<close>

text \<open>
  \<open>strings.Split s ":"\<close> cuts at every separator byte and always returns at least one
  part; \<open>strings.Join parts ":"\<close> puts the separator between the parts.
\<close>

fun Split :: "string \<Rightarrow> char \<Rightarrow> string list" where
  "Split [] sep = [[]]"
| "Split (c # cs) sep =
     (if c = sep then [] # Split cs sep
      else (case Split cs sep of
              [] \<Rightarrow> [[c]]
            | p # ps \<Rightarrow> (c # p) # ps))"

fun Join :: "string list \<Rightarrow> string \<Rightarrow> string" where
  "Join [] sep = []"
| "Join [p] sep = p"
| "Join (p # q # ps) sep = p @ sep @ Join (q # ps) sep"

text \<open>
  The host and port of \<open>start\<close>. \<open>parts[0]\<close> on an empty slice would panic (\<open>None\<close>).
\<close>

definition hostPort :: "string \<Rightarrow> (string \<times> string) option" where
  "hostPort addr =
     (let parts = Split addr CHR '':''
      in if length parts > 1
         then Some (Join (take (length parts - 1) parts) '':'', parts ! (length parts - 1))
         else (case parts of
                 [] \<Rightarrow> None
               | p # _ \<Rightarrow> Some (p, [])))"

datatype devent =
    CallRegister Node
  | CallDeregister string string
  | LogInfo string
  | LogErr error
  | StartPanic

fun registerAll ::
  "Registry \<Rightarrow> string \<Rightarrow> string \<Rightarrow> string \<Rightarrow> (string \<times> 'v service) list \<Rightarrow> devent list" where
  "registerAll r host port addr [] = []"
| "registerAll r host port addr ((key, s) # rest) =
     (let node = \<lparr>node_Id = service_id s, node_Name = service_name s, node_Host = host,
                  node_Port = port, node_Address = addr\<rparr>;
          err = Register r node
      in [CallRegister node,
          LogInfo (''Registerd '' @ service_name s @ '' '' @ service_id s @ '' '' @ addr)]
         @ (case err of None \<Rightarrow> [] | Some e \<Rightarrow> [LogErr e])
         @ registerAll r host port addr rest)"

definition start :: "'v Server \<Rightarrow> string \<Rightarrow> devent list" where
  "start server addr =
     (case registry server of
        None \<Rightarrow> []
      | Some r \<Rightarrow>
          (case hostPort addr of
             None \<Rightarrow> [StartPanic]
           | Some (host, port) \<Rightarrow> registerAll r host port addr (serviceMap server)))"

fun deregisterAll :: "Registry \<Rightarrow> (string \<times> 'v service) list \<Rightarrow> devent list" where
  "deregisterAll r [] = []"
| "deregisterAll r ((key, s) # rest) =
     (let err = Deregister r (service_name s) (service_id s)
      in [CallDeregister (service_name s) (service_id s),
          LogInfo (''Deregisterd '' @ service_name s @ '' '' @ service_id s)]
         @ (case err of None \<Rightarrow> [] | Some e \<Rightarrow> [LogErr e])
         @ deregisterAll r rest)"

definition stop :: "'v Server \<Rightarrow> devent list" where
  "stop server =
     (case registry server of
        None \<Rightarrow> []
      | Some r \<Rightarrow> deregisterAll r (serviceMap server))"

text \<open>The calls made on the discovery collaborator, in order.\<close>

fun registerCalls :: "devent list \<Rightarrow> Node list" where
  "registerCalls [] = []"
| "registerCalls (CallRegister n # es) = n # registerCalls es"
| "registerCalls (e # es) = registerCalls es"

fun deregisterCalls :: "devent list \<Rightarrow> (string \<times> string) list" where
  "deregisterCalls [] = []"
| "deregisterCalls (CallDeregister name ident # es) = (name, ident) # deregisterCalls es"
| "deregisterCalls (e # es) = deregisterCalls es"

section \<open>The gogoproto codec\<close>

text \<open>
  A value handed to the codec as \<open>interface{}\<close> either implements \<open>proto.Message\<close> or does
  not. The type assertion \<open>pb, ok := v.(proto.Message)\<close> yields the nil interface and
  \<open>false\<close> in the second case.
\<close>

datatype ('m, 'o) gvalue = Message 'm | NotMessage 'o

definition assertMessage :: "('m, 'o) gvalue \<Rightarrow> 'm option \<times> bool" where
  "assertMessage v = (case v of Message m \<Rightarrow> (Some m, True) | NotMessage x \<Rightarrow> (None, False))"

definition errors_New :: "string \<Rightarrow> error" where
  "errors_New msg = PlainError msg"

text \<open>
  The protobuf library: \<open>proto.Marshal\<close> and \<open>proto.Unmarshal\<close>, both callable with the nil
  interface. \<open>Unmarshal\<close> returns its error and the message it filled in.
\<close>

record 'm Proto =
  proto_Marshal :: "'m option \<Rightarrow> error + bytes"
  proto_Unmarshal :: "bytes \<Rightarrow> 'm option \<Rightarrow> error option \<times> 'm option"

text \<open>
  \<open>Encode\<close>: the writer \<open>w\<close> is its \<open>Write\<close>, returning an error or nil. The result is the
  returned error and the data written. In each of the four operations the error made by
  \<open>errors.New\<close> is bound to nothing.
\<close>

definition gogo_Encode ::
  "'m Proto \<Rightarrow> (bytes \<Rightarrow> error option) \<Rightarrow> ('m, 'o) gvalue \<Rightarrow> error option \<times> bytes list" where
  "gogo_Encode P w v =
     (case assertMessage v of
        (pb, ok) \<Rightarrow>
          let dropped = (if \<not> ok then [errors_New ''does not proto message interface''] else [])
          in (case proto_Marshal P pb of
                Inl err \<Rightarrow> (Some err, [])
              | Inr data \<Rightarrow> (w data, [data])))"

text \<open>
  \<open>Decode\<close>: \<open>buf\<close> is the content of the buffer handed out by the buffer pool, \<open>r\<close> what the
  reader delivers to \<open>buf.ReadFrom\<close>.
\<close>

definition gogo_Decode ::
  "'m Proto \<Rightarrow> bytes \<Rightarrow> bytes \<Rightarrow> ('m, 'o) gvalue \<Rightarrow> error option \<times> 'm option" where
  "gogo_Decode P buf r v =
     (let buf1 = buf @ r
      in (case assertMessage v of
            (pb, ok) \<Rightarrow>
              let dropped = (if \<not> ok then [errors_New ''does not proto message interface''] else [])
              in proto_Unmarshal P buf1 pb))"

definition gogo_Marshal :: "'m Proto \<Rightarrow> ('m, 'o) gvalue \<Rightarrow> error + bytes" where
  "gogo_Marshal P v =
     (case assertMessage v of
        (pb, ok) \<Rightarrow>
          let dropped = (if \<not> ok then [errors_New ''does not proto message interface''] else [])
          in proto_Marshal P pb)"

definition gogo_Unmarshal ::
  "'m Proto \<Rightarrow> bytes \<Rightarrow> ('m, 'o) gvalue \<Rightarrow> error option \<times> 'm option" where
  "gogo_Unmarshal P data v =
     (case assertMessage v of
        (pb, ok) \<Rightarrow>
          let dropped = (if \<not> ok then [errors_New ''does not proto message interface''] else [])
          in proto_Unmarshal P data pb)"


section \<open>The router as the specification words it\<close>

text \<open>
  The specification of the path router, written from its words and independently of the
  loop above: strip one leading slash, strip one trailing slash, split at the first
  remaining slash; a missing slash or an empty segment is a routing failure (\<open>None\<close>).
\<close>

definition stripLeadingSlash :: "string \<Rightarrow> string" where
  "stripLeadingSlash s = (case s of [] \<Rightarrow> [] | c # cs \<Rightarrow> if c = CHR ''/'' then cs else s)"

definition stripTrailingSlash :: "string \<Rightarrow> string" where
  "stripTrailingSlash s = (if s = [] then [] else if last s = CHR ''/'' then butlast s else s)"

definition splitFirstSlash :: "string \<Rightarrow> (string \<times> string) option" where
  "splitFirstSlash t =
     (if CHR ''/'' \<in> set t
      then Some (takeWhile (\<lambda>c. c \<noteq> CHR ''/'') t, drop 1 (dropWhile (\<lambda>c. c \<noteq> CHR ''/'') t))
      else None)"

definition routeSpec :: "string \<Rightarrow> (string \<times> string) option" where
  "routeSpec s =
     (case splitFirstSlash (stripTrailingSlash (stripLeadingSlash s)) of
        None \<Rightarrow> None
      | Some (svc, m) \<Rightarrow> if svc = [] \<or> m = [] then None else Some (svc, m))"

section \<open>Reading a response off the events\<close>

text \<open>
  The status \<open>respError\<close> writes for an error: its own code when it carries one, else 500.
\<close>

fun errorStatus :: "error \<Rightarrow> int" where
  "errorStatus (StatusError code msg) = code"
| "errorStatus (PlainError msg) = 500"

text \<open>The status line is the first \<open>WriteHeader\<close>; the body is everything written.\<close>

fun statusOf :: "event list \<Rightarrow> int option" where
  "statusOf [] = None"
| "statusOf (WriteHeader code # es) = Some code"
| "statusOf (e # es) = statusOf es"

fun bodyOf :: "event list \<Rightarrow> bytes" where
  "bodyOf [] = []"
| "bodyOf (Write data # es) = data @ bodyOf es"
| "bodyOf (e # es) = bodyOf es"

fun isLog :: "event \<Rightarrow> bool" where
  "isLog (GoLogError f sid sname mname status err) = True"
| "isLog e = False"

fun isHeaderSet :: "event \<Rightarrow> bool" where
  "isHeaderSet (HeaderSet name val) = True"
| "isHeaderSet e = False"

section \<open>A small server to run the model on\<close>

text \<open>
  Values are strings. The codec rejects the body \<open>bad\<close>, cannot marshal the reply
  \<open>chan\<close>, and its stream encoder fails after writing nothing for the reply \<open>brk\<close>. The
  method \<open>Echo\<close> of the service \<open>svc\<close> answers with its argument and sets one response
  header, unless the request carries a \<open>Deny\<close> header: then it returns a 403 error.
  The argument \<open>boom\<close> makes it return an error without a status.
\<close>

definition exEncoder :: "string Encoder" where
  "exEncoder =
     \<lparr>Decode = (\<lambda>body zero. if body = ''bad'' then Inl (PlainError ''syntax error'') else Inr body),
      Marshal = (\<lambda>v. if v = ''chan'' then Inl (PlainError ''unsupported type'') else Inr v),
      Encode = (\<lambda>v. if v = ''brk'' then ([], Some (PlainError ''broken pipe'')) else ([v], None))\<rparr>"

definition exEcho :: "string methodType" where
  "exEcho =
     \<lparr>ArgType = [], ReplyType = [],
      Func = (\<lambda>reqmd respmd arg reply.
                if map_of reqmd ''Deny'' \<noteq> None
                then (Some (StatusError 403 ''denied''), reply, respmd)
                else if arg = ''boom''
                then (Some (PlainError ''exploded''), reply, respmd)
                else (None, arg, AList.update ''X-Trace'' ''t1'' respmd))\<rparr>"

definition exService :: "string service" where
  "exService =
     \<lparr>service_id = ''id-1'', service_name = ''svc'',
      service_method = [(''Echo'', exEcho)], service_handlers = []\<rparr>"

definition exServer :: "string Server" where
  "exServer = (NewServer exEncoder)\<lparr>serviceMap := [(''svc'', exService)]\<rparr>"

definition exSnappy :: "bytes \<Rightarrow> error + bytes" where
  "exSnappy data = (if data = ''huge'' then Inl (PlainError ''too large'') else Inr (''sz:'' @ data))"

definition exRequest :: "string \<Rightarrow> string \<Rightarrow> (string \<times> string list) list \<Rightarrow> bytes \<Rightarrow> Request" where
  "exRequest m p h b = \<lparr>Method = m, Path = p, Header = h, Body = b\<rparr>"

definition exRegistry :: Registry where
  "exRegistry =
     \<lparr>Register = (\<lambda>n. if node_Name n = ''svc'' then Some (PlainError ''etcd down'') else None),
      Deregister = (\<lambda>name ident. if name = ''svc'' then Some (PlainError ''etcd down'') else None)\<rparr>"

definition exService2 :: "string service" where
  "exService2 =
     \<lparr>service_id = ''id-2'', service_name = ''other'',
      service_method = [(''Echo'', exEcho)], service_handlers = []\<rparr>"

definition exServer2 :: "string Server" where
  "exServer2 = (NewServer exEncoder)\<lparr>serviceMap := [(''svc'', exService), (''other'', exService2)],
                                    registry := Some exRegistry\<rparr>"

definition exProto :: "string Proto" where
  "exProto =
     \<lparr>proto_Marshal = (\<lambda>pb. case pb of None \<Rightarrow> Inl (PlainError ''proto: Marshal called with nil'')
                                       | Some m \<Rightarrow> Inr m),
      proto_Unmarshal = (\<lambda>data pb. case pb of None \<Rightarrow> (Some (PlainError ''proto: nil message''), None)
                                              | Some m \<Rightarrow> (None, Some data))\<rparr>"


section \<open>Well-formed requests and the context handed to dispatch\<close>

text \<open>
  The HTTP server never stores a header name with an empty list of values; a request built
  by hand may. Only the former kind gets past the header loop of \<open>ServeHTTP\<close>.
\<close>

definition wellFormedHeader :: "(string \<times> string list) list \<Rightarrow> bool" where
  "wellFormedHeader hs = list_all (\<lambda>h. snd h \<noteq> []) hs"

text \<open>
  The context as \<open>ServeHTTP\<close> has filled it in when it calls the first middleware or
  \<open>serve\<close>: \<open>ctx0\<close> is the context the pool handed out and \<open>md\<close> its request metadata after
  the header loop.
\<close>

definition dispatchCtx ::
  "'v Server \<Rightarrow> Request \<Rightarrow> 'v service \<Rightarrow> string \<Rightarrow> string \<Rightarrow> 'v methodType \<Rightarrow> Metadata
     \<Rightarrow> 'v Ctx \<Rightarrow> 'v Ctx" where
  "dispatchCtx server req s serviceName methodName mt md ctx0 =
     ctx0\<lparr>ReqMetadata := md, ctx_mt := Some mt, ctx_req := Some req,
          ctx_encoder := Some (encoder server), ctx_snappy := snappy server,
          ServiceID := service_id s, ServiceName := serviceName, MethodName := methodName\<rparr>"

section \<open>The path router\<close>

lemma scanSlash_char:
  "i \<le> length s \<Longrightarrow> scanSlash s i =
     (if CHR ''/'' \<in> set (drop i s)
      then (take (i + length (takeWhile (\<lambda>c. c \<noteq> CHR ''/'') (drop i s))) s,
            drop (i + length (takeWhile (\<lambda>c. c \<noteq> CHR ''/'') (drop i s)) + 1) s)
      else ([], []))"
proof (induction s i rule: scanSlash.induct)
  case (1 s i)
  show ?case
  proof (cases "i < length s")
    case False
    then show ?thesis by (simp add: scanSlash.simps)
  next
    case True
    then have d: "drop i s = s ! i # drop (Suc i) s"
      by (simp add: Cons_nth_drop_Suc)
    show ?thesis
    proof (cases "s ! i = CHR ''/''")
      case True
      with \<open>i < length s\<close> d show ?thesis
        by (subst scanSlash.simps) simp
    next
      case False
      with \<open>i < length s\<close> d "1.IH" show ?thesis
        by (subst scanSlash.simps) simp
    qed
  qed
qed

lemma scanSlash_split:
  "scanSlash t 0 = (case splitFirstSlash t of None \<Rightarrow> ([], []) | Some p \<Rightarrow> p)"
proof -
  have "take (length (takeWhile (\<lambda>c. c \<noteq> CHR ''/'') t)) t = takeWhile (\<lambda>c. c \<noteq> CHR ''/'') t"
    by (rule takeWhile_eq_take [symmetric])
  moreover have "drop (length (takeWhile (\<lambda>c. c \<noteq> CHR ''/'') t) + 1) t
                   = drop 1 (dropWhile (\<lambda>c. c \<noteq> CHR ''/'') t)"
    by (simp add: dropWhile_eq_drop [of "\<lambda>c. c \<noteq> CHR ''/''" t])
  ultimately show ?thesis
    using scanSlash_char [of 0 t] by (simp add: splitFirstSlash_def)
qed

lemma drop_last_byte: "s \<noteq> [] \<Longrightarrow> drop (length s - Suc 0) s = [last s]"
  by (cases s rule: rev_cases) simp_all

lemma strip_prefix: "(if HasPrefix s ''/'' then drop 1 s else s) = stripLeadingSlash s"
  by (cases s) (simp_all add: HasPrefix_def stripLeadingSlash_def)

lemma strip_suffix:
  "(if HasSuffix s ''/'' then take (length s - 1) s else s) = stripTrailingSlash s"
proof (cases "s = []")
  case True
  then show ?thesis by (simp add: HasSuffix_def stripTrailingSlash_def)
next
  case False
  then have "1 \<le> length s" by (cases s) simp_all
  with False show ?thesis
    by (simp add: HasSuffix_def stripTrailingSlash_def drop_last_byte butlast_conv_take)
qed

lemma getServiceMethod_split:
  "getServiceMethod s =
     (case splitFirstSlash (stripTrailingSlash (stripLeadingSlash s)) of
        None \<Rightarrow> ([], [])
      | Some p \<Rightarrow> p)"
  unfolding getServiceMethod_def Let_def strip_prefix strip_suffix
  by (rule scanSlash_split)

text \<open>
  Claim C4. For every raw path, \<open>getServiceMethod\<close> strips at most one leading and at most
  one trailing slash and splits the rest at the first remaining slash; when no slash
  remains it returns two empty names. It agrees with the router of the specification
  wherever that one succeeds, and wherever the specification reports a routing failure one
  of the two names is empty, which \<open>ServeHTTP\<close> answers with 404 before anything else
  happens. Being a function of the path alone, it has no side effect.
\<close>

theorem getServiceMethod_meets_routeSpec:
  "getServiceMethod s =
     (case splitFirstSlash (stripTrailingSlash (stripLeadingSlash s)) of
        None \<Rightarrow> ([], [])
      | Some (svc, m) \<Rightarrow> (svc, m))
   \<and> (case routeSpec s of
        Some (svc, m) \<Rightarrow> getServiceMethod s = (svc, m) \<and> svc \<noteq> [] \<and> m \<noteq> []
      | None \<Rightarrow>
          (fst (getServiceMethod s) = [] \<or> snd (getServiceMethod s) = [])
          \<and> (Method req = ''POST'' \<and> Path req = s \<longrightarrow>
               ServeHTTP z server req =
                 (server, [WriteHeader 404, Write ''rpc: can't find service or method''])))"
  by (auto simp: getServiceMethod_split routeSpec_def ServeHTTP_def split: option.splits if_splits)

theorem getServiceMethod_meets_routeSpec_witness:
  "routeSpec ''/svc/Echo/'' = Some (''svc'', ''Echo'')
   \<and> getServiceMethod ''/svc/Echo/'' = (''svc'', ''Echo'')
   \<and> routeSpec ''/svc'' = None
   \<and> ServeHTTP exSnappy exServer (exRequest ''POST'' ''/svc'' [] ''hi'') =
        (exServer, [WriteHeader 404, Write ''rpc: can't find service or method''])"
proof -
  have a: "routeSpec ''/svc/Echo/'' = Some (''svc'', ''Echo'')"
    by (simp add: routeSpec_def splitFirstSlash_def stripTrailingSlash_def stripLeadingSlash_def)
  have b: "routeSpec ''/svc'' = None"
    by (simp add: routeSpec_def splitFirstSlash_def stripTrailingSlash_def stripLeadingSlash_def)
  show ?thesis
    using getServiceMethod_meets_routeSpec [of "''/svc/Echo/''"]
      getServiceMethod_meets_routeSpec [of "''/svc''" "exRequest ''POST'' ''/svc'' [] ''hi''" exSnappy exServer]
    by (simp add: a b exRequest_def splitFirstSlash_def stripTrailingSlash_def
        stripLeadingSlash_def)
qed

section \<open>Requests that are not POST\<close>

text \<open>
  Claim C9. A request whose method is not POST is answered with status 405 and the body
  \<open>405 must POST\<close> followed by a newline, whatever its path; the server, and with it the
  context pool, is left as it was, and nothing is routed or dispatched.
\<close>

theorem ServeHTTP_must_POST:
  "Method req \<noteq> ''POST'' \<Longrightarrow>
     ServeHTTP z server req =
       (server, [HeaderSet ''Content-Type'' ''text/plain; charset=utf-8'',
                 WriteHeader 405, Write ''405 must POST\<newline>''])"
  by (simp add: ServeHTTP_def)

theorem ServeHTTP_must_POST_witness:
  "Method (exRequest ''GET'' ''/svc/Echo'' [] ''hi'') \<noteq> ''POST''
   \<and> ServeHTTP exSnappy exServer (exRequest ''GET'' ''/svc/Echo'' [] ''hi'') =
       (exServer, [HeaderSet ''Content-Type'' ''text/plain; charset=utf-8'',
                 WriteHeader 405, Write ''405 must POST\<newline>''])"
  using ServeHTTP_must_POST [of "exRequest ''GET'' ''/svc/Echo'' [] ''hi''" exSnappy exServer]
  by (simp add: exRequest_def)


section \<open>Evaluating the example server\<close>

lemma route_svc: "getServiceMethod ''/svc'' = ([], [])"
  by (simp add: getServiceMethod_def HasPrefix_def HasSuffix_def scanSlash.simps)

lemma route_nosvc_Echo: "getServiceMethod ''/nosvc/Echo'' = (''nosvc'', ''Echo'')"
  by (simp add: getServiceMethod_def HasPrefix_def HasSuffix_def scanSlash.simps)

lemma route_svc_Nope: "getServiceMethod ''/svc/Nope'' = (''svc'', ''Nope'')"
  by (simp add: getServiceMethod_def HasPrefix_def HasSuffix_def scanSlash.simps)

lemma route_svc_Echo: "getServiceMethod ''/svc/Echo'' = (''svc'', ''Echo'')"
  by (simp add: getServiceMethod_def HasPrefix_def HasSuffix_def scanSlash.simps)

lemmas ex_defs = ServeHTTP_def route_svc_Echo route_nosvc_Echo pool_Get_def pool_New_def
  pool_Put_def exServer_def NewServer_def exService_def exEcho_def exEncoder_def exSnappy_def
  exRequest_def serve_def respError_def Snappy_def Error_def

section \<open>Routing failures\<close>

lemma copyHeader_total:
  "wellFormedHeader hs \<Longrightarrow> \<exists>md'. copyHeader hs md = Some md'"
proof (induction hs arbitrary: md)
  case Nil
  then show ?case by simp
next
  case (Cons h hs)
  obtain name vals where h: "h = (name, vals)" by (cases h)
  with Cons.prems obtain v vs where vals: "vals = v # vs"
    by (cases vals) (simp_all add: wellFormedHeader_def)
  from Cons.prems have "wellFormedHeader hs" by (simp add: wellFormedHeader_def)
  then show ?case using Cons.IH h vals by simp
qed

lemma pool_Get_serviceMap: "serviceMap (snd (pool_Get server)) = serviceMap server"
  by (simp add: pool_Get_def split: list.splits)

text \<open>
  Claim C3. For a POST request (whose header entries each carry a value, as those of the
  HTTP server do), a routing failure ends the request before dispatch: the events are
  exactly the status 404 and the body, so neither the codec, the method nor the audit
  callback is touched. A path without both segments gives the body
  \<open>rpc: can't find service or method\<close>, an unregistered service name \<open>rpc: can't find
  service\<close> followed by the name, and an unknown method of a registered service \<open>rpc: can't
  find method\<close> followed by the name.
\<close>

theorem routing_failure_404:
  assumes "Method req = ''POST''" and "getServiceMethod (Path req) = (sn, mn)"
  shows "(sn = [] \<or> mn = [] \<longrightarrow>
            ServeHTTP z server req =
              (server, [WriteHeader 404, Write ''rpc: can't find service or method'']))
       \<and> (sn \<noteq> [] \<and> mn \<noteq> [] \<and> wellFormedHeader (Header req)
            \<and> map_of (serviceMap server) sn = None \<longrightarrow>
            snd (ServeHTTP z server req) =
              [WriteHeader 404, Write (''rpc: can't find service '' @ sn)])
       \<and> (sn \<noteq> [] \<and> mn \<noteq> [] \<and> wellFormedHeader (Header req)
            \<and> map_of (serviceMap server) sn = Some s
            \<and> map_of (service_method s) mn = None \<longrightarrow>
            snd (ServeHTTP z server req) =
              [WriteHeader 404, Write (''rpc: can't find method '' @ mn)])"
proof -
  obtain ctx0 server1 where g: "pool_Get server = (ctx0, server1)"
    by (cases "pool_Get server")
  then have sm: "serviceMap server1 = serviceMap server"
    using pool_Get_serviceMap [of server] by simp
  have first: "sn = [] \<or> mn = [] \<longrightarrow>
            ServeHTTP z server req =
              (server, [WriteHeader 404, Write ''rpc: can't find service or method''])"
    using assms by (simp add: ServeHTTP_def)
  have rest: "snd (ServeHTTP z server req) = [WriteHeader 404, Write (''rpc: can't find service '' @ sn)]"
    if "sn \<noteq> []" and "mn \<noteq> []" and wf: "wellFormedHeader (Header req)"
      and "map_of (serviceMap server) sn = None"
  proof -
    obtain md where "copyHeader (Header req) (ReqMetadata ctx0) = Some md"
      using copyHeader_total [OF wf] by blast
    then show ?thesis using assms that g sm by (simp add: ServeHTTP_def)
  qed
  have last: "snd (ServeHTTP z server req) = [WriteHeader 404, Write (''rpc: can't find method '' @ mn)]"
    if "sn \<noteq> []" and "mn \<noteq> []" and wf: "wellFormedHeader (Header req)"
      and "map_of (serviceMap server) sn = Some s" and "map_of (service_method s) mn = None"
  proof -
    obtain md where "copyHeader (Header req) (ReqMetadata ctx0) = Some md"
      using copyHeader_total [OF wf] by blast
    then show ?thesis using assms that g sm by (simp add: ServeHTTP_def)
  qed
  from first rest last show ?thesis by blast
qed

theorem routing_failure_404_witness:
  "ServeHTTP exSnappy exServer (exRequest ''POST'' ''/svc'' [(''Auth'', [''secret''])] ''hi'') =
     (exServer, [WriteHeader 404, Write ''rpc: can't find service or method''])
   \<and> snd (ServeHTTP exSnappy exServer (exRequest ''POST'' ''/nosvc/Echo'' [(''Auth'', [''secret''])] ''hi'')) =
       [WriteHeader 404, Write ''rpc: can't find service nosvc'']
   \<and> snd (ServeHTTP exSnappy exServer (exRequest ''POST'' ''/svc/Nope'' [(''Auth'', [''secret''])] ''hi'')) =
       [WriteHeader 404, Write ''rpc: can't find method Nope'']"
  using routing_failure_404 [of "exRequest ''POST'' ''/svc'' [(''Auth'', [''secret''])] ''hi''" "[]" "[]" exSnappy exServer]
    routing_failure_404 [of "exRequest ''POST'' ''/nosvc/Echo'' [(''Auth'', [''secret''])] ''hi''" "''nosvc''" "''Echo''" exSnappy exServer]
    routing_failure_404 [of "exRequest ''POST'' ''/svc/Nope'' [(''Auth'', [''secret''])] ''hi''" "''svc''" "''Nope''" exSnappy exServer exService]
  by (simp add: exRequest_def route_svc route_nosvc_Echo route_svc_Nope wellFormedHeader_def exServer_def
      NewServer_def exService_def)


section \<open>Dispatch: decode failure\<close>

lemma respError_events:
  "snd (respError e ctx) =
     [GoLogError (ctx_logError ctx) (ServiceID ctx) (ServiceName ctx) (MethodName ctx)
        (errorStatus e) e,
      WriteHeader (errorStatus e), Write (ErrorMsg e)]"
  by (cases e) (simp_all add: respError_def)

lemma statusOf_headers:
  "statusOf (map (\<lambda>(name, val). HeaderSet name val) md @ es) = statusOf es"
  by (induction md) auto

lemma bodyOf_headers:
  "bodyOf (map (\<lambda>(name, val). HeaderSet name val) md @ es) = bodyOf es"
  by (induction md) auto

lemma bodyOf_writes: "bodyOf (map Write chunks) = concat chunks"
  by (induction chunks) auto

lemma headerSets_headers:
  "filter isHeaderSet (map (\<lambda>(name, val). HeaderSet name val) md) =
     map (\<lambda>(name, val). HeaderSet name val) md"
  by (induction md) auto

lemma headerSets_writes: "filter isHeaderSet (map Write chunks) = []"
  by (induction chunks) auto

text \<open>
  Claim C6. When the body of a dispatched request does not decode with the configured
  codec, \<open>serve\<close> returns the status-carrying error with code 500 after the decode call and
  the closing of the body, and nothing else has happened: the bound method is not called.
  Written by \<open>respError\<close>, that error gives the status 500.
\<close>

theorem serve_decode_failure:
  assumes "ctx_mt ctx = Some m" and "ctx_req ctx = Some req" and "ctx_encoder ctx = Some enc"
    and "Decode enc (Body req) (ArgType m) = Inl derr"
  shows "serve z ctx =
           (Some (StatusError 500 ''unable to encode response''), ctx, [CallDecode, BodyClose])
       \<and> CallFunc \<notin> set (snd (snd (serve z ctx)))
       \<and> statusOf (snd (respError (StatusError 500 ''unable to encode response'') ctx)) = Some 500"
  using assms by (simp add: serve_def Error_def respError_def)

theorem serve_decode_failure_witness:
  "serve exSnappy (dispatchCtx exServer (exRequest ''POST'' ''/svc/Echo'' [] ''bad'') exService
       ''svc'' ''Echo'' exEcho [] (pool_New exServer)) =
     (Some (StatusError 500 ''unable to encode response''),
      dispatchCtx exServer (exRequest ''POST'' ''/svc/Echo'' [] ''bad'') exService
       ''svc'' ''Echo'' exEcho [] (pool_New exServer),
      [CallDecode, BodyClose])"
  using serve_decode_failure [of "dispatchCtx exServer (exRequest ''POST'' ''/svc/Echo'' [] ''bad'') exService
       ''svc'' ''Echo'' exEcho [] (pool_New exServer)" exEcho "exRequest ''POST'' ''/svc/Echo'' [] ''bad''"
       exEncoder "PlainError ''syntax error''" exSnappy]
  by (simp add: dispatchCtx_def exServer_def NewServer_def exRequest_def exEncoder_def)

section \<open>Dispatch: the successful reply\<close>

text \<open>
  Claim C5, as amended. For a dispatched request whose body decodes and whose method
  returns nil: without compression, \<open>serve\<close> copies the response metadata into the
  headers, writes status 200 and lets the codec stream the reply to the writer; with
  compression, provided the reply marshals and compresses without error, it copies the
  metadata, sets the header \<open>Snappy: true\<close>, writes status 200 and the compressed bytes.
  After the copied metadata the header \<open>Snappy\<close> is thus set exactly when compression is
  enabled, and every header is set before the status and the body are written.
\<close>

theorem serve_success:
  assumes "ctx_mt ctx = Some m" and "ctx_req ctx = Some req" and "ctx_encoder ctx = Some enc"
    and "Decode enc (Body req) (ArgType m) = Inr argv"
    and "Func m (ReqMetadata ctx) (RespMetadata ctx) argv (ReplyType m) = (None, replyv, respmd)"
  shows "(\<not> ctx_snappy ctx \<longrightarrow>
            serve z ctx =
              (None, ctx\<lparr>RespMetadata := respmd, returnValues := [None], isResp := True\<rparr>,
               [CallDecode, BodyClose, CallFunc]
               @ map (\<lambda>(name, val). HeaderSet name val) respmd
               @ [WriteHeader 200, CallEncode]
               @ map Write (fst (Encode enc replyv)))
            \<and> statusOf (snd (snd (serve z ctx))) = Some 200
            \<and> bodyOf (snd (snd (serve z ctx))) = concat (fst (Encode enc replyv))
            \<and> filter isHeaderSet (snd (snd (serve z ctx))) =
                map (\<lambda>(name, val). HeaderSet name val) respmd)
       \<and> (ctx_snappy ctx \<and> Marshal enc replyv = Inr data \<and> z data = Inr data' \<longrightarrow>
            serve z ctx =
              (None, ctx\<lparr>RespMetadata := respmd, returnValues := [None], isResp := True\<rparr>,
               [CallDecode, BodyClose, CallFunc]
               @ map (\<lambda>(name, val). HeaderSet name val) respmd
               @ [CallMarshal, CallSnappy, HeaderSet ''Snappy'' ''true'',
                  WriteHeader 200, Write data'])
            \<and> statusOf (snd (snd (serve z ctx))) = Some 200
            \<and> bodyOf (snd (snd (serve z ctx))) = data'
            \<and> filter isHeaderSet (snd (snd (serve z ctx))) =
                map (\<lambda>(name, val). HeaderSet name val) respmd
                @ [HeaderSet ''Snappy'' ''true''])"
  using assms
  by (simp add: serve_def statusOf_headers bodyOf_headers bodyOf_writes headerSets_headers
      headerSets_writes)

theorem serve_success_witness:
  "snd (snd (serve exSnappy
       (dispatchCtx exServer (exRequest ''POST'' ''/svc/Echo'' [] ''hi'') exService
          ''svc'' ''Echo'' exEcho [] (pool_New exServer)))) =
     [CallDecode, BodyClose, CallFunc, HeaderSet ''X-Trace'' ''t1'',
      WriteHeader 200, CallEncode, Write ''hi'']
   \<and> snd (snd (serve exSnappy
       (dispatchCtx (Snappy exServer True) (exRequest ''POST'' ''/svc/Echo'' [] ''hi'') exService
          ''svc'' ''Echo'' exEcho [] (pool_New exServer)))) =
     [CallDecode, BodyClose, CallFunc, HeaderSet ''X-Trace'' ''t1'',
      CallMarshal, CallSnappy, HeaderSet ''Snappy'' ''true'', WriteHeader 200, Write ''sz:hi'']"
  using serve_success [where ctx = "dispatchCtx exServer (exRequest ''POST'' ''/svc/Echo'' [] ''hi'')
          exService ''svc'' ''Echo'' exEcho [] (pool_New exServer)" and m = exEcho
          and req = "exRequest ''POST'' ''/svc/Echo'' [] ''hi''" and enc = exEncoder
          and argv = "''hi''" and replyv = "''hi''" and respmd = "[(''X-Trace'', ''t1'')]"
          and z = exSnappy]
    serve_success [where ctx = "dispatchCtx (Snappy exServer True)
          (exRequest ''POST'' ''/svc/Echo'' [] ''hi'') exService ''svc'' ''Echo'' exEcho []
          (pool_New exServer)" and m = exEcho
          and req = "exRequest ''POST'' ''/svc/Echo'' [] ''hi''" and enc = exEncoder
          and argv = "''hi''" and replyv = "''hi''" and respmd = "[(''X-Trace'', ''t1'')]"
          and data = "''hi''" and z = exSnappy and data' = "''sz:hi''"]
  by (simp add: dispatchCtx_def exServer_def NewServer_def exRequest_def exEncoder_def
      exEcho_def exSnappy_def pool_New_def Snappy_def)

text \<open>
  Claim C5 as stated fails: with compression enabled, the method \<open>Echo\<close> returns nil for
  the argument \<open>chan\<close>, the codec cannot marshal the reply, and the response has status
  500 and no \<open>Snappy\<close> header.
\<close>

theorem marshal_failure_counterexample:
  "fst (Func exEcho [] [] ''chan'' []) = None
   \<and> snappy (Snappy exServer True)
   \<and> statusOf (snd (ServeHTTP exSnappy (Snappy exServer True)
                        (exRequest ''POST'' ''/svc/Echo'' [] ''chan''))) = Some 500
   \<and> HeaderSet ''Snappy'' ''true'' \<notin> set (snd (ServeHTTP exSnappy (Snappy exServer True)
                        (exRequest ''POST'' ''/svc/Echo'' [] ''chan'')))"
  by (simp add: ex_defs)

section \<open>Dispatch: errors and the audit callback\<close>

lemma serve_error_ctx:
  "serve z c = (Some e, c', tr) \<Longrightarrow>
     isResp c' = isResp c \<and> ctx_logError c' = ctx_logError c \<and> ServiceID c' = ServiceID c
     \<and> ServiceName c' = ServiceName c \<and> MethodName c' = MethodName c"
  by (auto simp: serve_def Let_def split: option.splits sum.splits prod.splits if_splits)

lemma ServeHTTP_dispatch:
  assumes "Method req = ''POST''" and "getServiceMethod (Path req) = (sn, mn)"
    and "sn \<noteq> []" and "mn \<noteq> []"
    and "pool_Get server = (ctx0, server1)"
    and "copyHeader (Header req) (ReqMetadata ctx0) = Some md"
    and "map_of (serviceMap server) sn = Some s"
    and "map_of (service_method s) mn = Some mt"
  shows "ServeHTTP z server req =
           (case (case service_handlers s of
                    [] \<Rightarrow> serve z (dispatchCtx server req s sn mn mt md ctx0)
                  | h # hs \<Rightarrow> h (dispatchCtx server req s sn mn mt md ctx0) req) of
              (err, ctx3, tr) \<Rightarrow>
                (case err of
                   None \<Rightarrow> (pool_Put server1 ctx3, tr)
                 | Some e \<Rightarrow>
                     if \<not> isResp ctx3
                     then (pool_Put server1 (fst (respError e ctx3)), tr @ snd (respError e ctx3))
                     else (pool_Put server1 ctx3, tr)))"
proof -
  have sm: "serviceMap server1 = serviceMap server" "encoder server1 = encoder server"
    "snappy server1 = snappy server"
    using assms(5) by (auto simp: pool_Get_def split: list.splits)
  show ?thesis
    using assms sm
    by (cases "service_handlers s")
      (simp_all add: ServeHTTP_def dispatchCtx_def Let_def split: prod.splits option.splits)
qed

text \<open>
  Claim C7, as amended. For a POST request that reaches dispatch, every error that comes
  back to \<open>ServeHTTP\<close> from the first middleware or, without middleware, from \<open>serve\<close> (a
  decode failure, an error of the method, and with compression enabled a marshal or
  compression failure) while the response-sent flag of the context is clear starts the
  audit callback of the context in a goroutine of its own, before the status and the body
  are written, with the arguments (service id, service name, method name, status, error);
  the status is the code of the error, or 500 when it has none. Without middleware the
  flag is the one the context had when the pool handed it out, and the three names are
  those of the resolved service and method.
\<close>

theorem returned_error_is_logged:
  assumes "Method req = ''POST''" and "getServiceMethod (Path req) = (sn, mn)"
    and "sn \<noteq> []" and "mn \<noteq> []"
    and "pool_Get server = (ctx0, server1)"
    and "copyHeader (Header req) (ReqMetadata ctx0) = Some md"
    and "map_of (serviceMap server) sn = Some s"
    and "map_of (service_method s) mn = Some mt"
    and "(case service_handlers s of
            [] \<Rightarrow> serve z (dispatchCtx server req s sn mn mt md ctx0)
          | h # hs \<Rightarrow> h (dispatchCtx server req s sn mn mt md ctx0) req) = (Some e, ctx3, tr)"
    and "\<not> isResp ctx3"
  shows "snd (ServeHTTP z server req) =
           tr @ [GoLogError (ctx_logError ctx3) (ServiceID ctx3) (ServiceName ctx3)
                   (MethodName ctx3) (errorStatus e) e,
                 WriteHeader (errorStatus e), Write (ErrorMsg e)]
       \<and> (service_handlers s = [] \<longrightarrow>
            \<not> isResp ctx0 \<and> ctx_logError ctx3 = ctx_logError ctx0
            \<and> ServiceID ctx3 = service_id s \<and> ServiceName ctx3 = sn \<and> MethodName ctx3 = mn)"
proof -
  have one: "snd (ServeHTTP z server req) =
           tr @ [GoLogError (ctx_logError ctx3) (ServiceID ctx3) (ServiceName ctx3)
                   (MethodName ctx3) (errorStatus e) e,
                 WriteHeader (errorStatus e), Write (ErrorMsg e)]"
    using ServeHTTP_dispatch [OF assms(1-8), of z] assms(9,10)
    by (simp add: respError_events)
  have two: "\<not> isResp ctx0 \<and> ctx_logError ctx3 = ctx_logError ctx0
            \<and> ServiceID ctx3 = service_id s \<and> ServiceName ctx3 = sn \<and> MethodName ctx3 = mn"
    if h: "service_handlers s = []"
  proof -
    from assms(9) h
    have "serve z (dispatchCtx server req s sn mn mt md ctx0) = (Some e, ctx3, tr)"
      by simp
    from serve_error_ctx [OF this] assms(10) show ?thesis
      by (simp add: dispatchCtx_def)
  qed
  from one two show ?thesis by blast
qed

theorem returned_error_is_logged_witness:
  "snd (ServeHTTP exSnappy exServer
          (exRequest ''POST'' ''/svc/Echo'' [(''Deny'', [''1''])] ''hi'')) =
     [CallDecode, BodyClose, CallFunc,
      GoLogError defaulLogErr ''id-1'' ''svc'' ''Echo'' 403 (StatusError 403 ''denied''),
      WriteHeader 403, Write ''denied'']"
  using returned_error_is_logged [where req = "exRequest ''POST'' ''/svc/Echo'' [(''Deny'', [''1''])] ''hi''"
      and sn = "''svc''" and mn = "''Echo''" and server = exServer and ?ctx0.0 = "pool_New exServer"
      and ?server1.0 = exServer and md = "[(''Deny'', ''1'')]" and s = exService and mt = exEcho
      and z = exSnappy and e = "StatusError 403 ''denied''"
      and ?ctx3.0 = "fst (snd (serve exSnappy (dispatchCtx exServer
          (exRequest ''POST'' ''/svc/Echo'' [(''Deny'', [''1''])] ''hi'') exService ''svc'' ''Echo''
          exEcho [(''Deny'', ''1'')] (pool_New exServer))))"
      and tr = "[CallDecode, BodyClose, CallFunc]"]
  by (simp add: dispatchCtx_def exServer_def NewServer_def exRequest_def exEncoder_def
      exEcho_def exService_def pool_New_def pool_Get_def route_svc_Echo serve_def)

text \<open>
  Claim C7 as stated fails: without compression the error of the stream encoder is
  dropped. For the reply \<open>brk\<close> the codec returns an error, the response is a 200 without
  body, and no audit callback is started.
\<close>

theorem encode_failure_not_logged_counterexample:
  "snd (Encode exEncoder ''brk'') = Some (PlainError ''broken pipe'')
   \<and> snd (ServeHTTP exSnappy exServer (exRequest ''POST'' ''/svc/Echo'' [] ''brk'')) =
       [CallDecode, BodyClose, CallFunc, HeaderSet ''X-Trace'' ''t1'', WriteHeader 200, CallEncode]
   \<and> filter isLog (snd (ServeHTTP exSnappy exServer (exRequest ''POST'' ''/svc/Echo'' [] ''brk''))) = []"
  by (simp add: ex_defs)

section \<open>The pooled context\<close>

text \<open>
  Claim C2, evaluated on the code. A method error with code 403 is answered with status
  403 and its message on a server that has not served anything yet. After one successful
  request the pool hands out the same context, whose response-sent flag is still set: the
  same failing request now gets neither a status nor a body, and no audit callback.
\<close>

theorem reused_context_drops_error_response:
  "snd (ServeHTTP exSnappy exServer (exRequest ''POST'' ''/svc/Echo'' [(''Deny'', [''1''])] ''hi'')) =
     [CallDecode, BodyClose, CallFunc,
      GoLogError defaulLogErr ''id-1'' ''svc'' ''Echo'' 403 (StatusError 403 ''denied''),
      WriteHeader 403, Write ''denied'']
   \<and> snd (ServeHTTP exSnappy
           (fst (ServeHTTP exSnappy exServer (exRequest ''POST'' ''/svc/Echo'' [] ''hi'')))
           (exRequest ''POST'' ''/svc/Echo'' [(''Deny'', [''1''])] ''hi'')) =
     [CallDecode, BodyClose, CallFunc]"
  by (simp add: ex_defs)

text \<open>
  Claim C1, evaluated on the code. After a successful request the context goes back to
  the pool with its request metadata, its response metadata and its response-sent flag
  as the request left them; the next request on it adds its own header to the old ones;
  and a request for an unknown service takes the context from the pool and never returns
  it.
\<close>

theorem pooled_context_is_not_reset:
  "map (\<lambda>c. (ReqMetadata c, RespMetadata c, isResp c))
     (pool (fst (ServeHTTP exSnappy exServer
                   (exRequest ''POST'' ''/svc/Echo'' [(''Auth'', [''secret''])] ''hi'')))) =
     [([(''Auth'', ''secret'')], [(''X-Trace'', ''t1'')], True)]
   \<and> map (\<lambda>c. (ReqMetadata c, RespMetadata c, isResp c))
     (pool (fst (ServeHTTP exSnappy
              (fst (ServeHTTP exSnappy exServer
                   (exRequest ''POST'' ''/svc/Echo'' [(''Auth'', [''secret''])] ''hi'')))
              (exRequest ''POST'' ''/svc/Echo'' [(''Lang'', [''en''])] ''hi'')))) =
     [([(''Auth'', ''secret''), (''Lang'', ''en'')], [(''X-Trace'', ''t1'')], True)]
   \<and> pool (fst (ServeHTTP exSnappy
              (fst (ServeHTTP exSnappy exServer
                   (exRequest ''POST'' ''/svc/Echo'' [(''Auth'', [''secret''])] ''hi'')))
              (exRequest ''POST'' ''/nosvc/Echo'' [] ''hi''))) = []"
  by (simp add: ex_defs)

section \<open>Discovery\<close>

lemma Split_not_Nil: "Split s c \<noteq> []"
  by (induction s) (auto split: list.splits)

lemma Split_length: "(Suc 0 < length (Split s c)) = (c \<in> set s)"
proof (induction s)
  case Nil
  then show ?case by simp
next
  case (Cons a s)
  then show ?case
    using Split_not_Nil [of s c] by (cases "Split s c") auto
qed

lemma Split_last: "c \<notin> set (last (Split s c))"
proof (induction s)
  case Nil
  then show ?case by simp
next
  case (Cons a s)
  then show ?case
    using Split_not_Nil [of s c] by (cases "Split s c") (auto split: if_splits)
qed

lemma Join_Cons: "ps \<noteq> [] \<Longrightarrow> Join (p # ps) sep = p @ sep @ Join ps sep"
  by (cases ps) simp_all

lemma Join_Split: "Join (Split s c) [c] = s"
proof (induction s)
  case Nil
  then show ?case by simp
next
  case (Cons a s)
  show ?case
  proof (cases "a = c")
    case True
    then show ?thesis using Cons Split_not_Nil [of s c] by (simp add: Join_Cons)
  next
    case False
    obtain p ps where sp: "Split s c = p # ps"
      using Split_not_Nil [of s c] by (cases "Split s c") auto
    with Cons False show ?thesis by (cases ps) simp_all
  qed
qed

lemma Join_butlast:
  "Suc 0 < length ps \<Longrightarrow> Join ps sep = Join (butlast ps) sep @ sep @ last ps"
  by (induction ps sep rule: Join.induct) simp_all

lemma hostPort_char:
  "hostPort addr =
     Some (if CHR '':'' \<in> set addr
           then (Join (butlast (Split addr CHR '':'')) '':'', last (Split addr CHR '':''))
           else (addr, []))"
proof (cases "CHR '':'' \<in> set addr")
  case True
  then have l: "Suc 0 < length (Split addr CHR '':'')" by (simp add: Split_length)
  then have "Split addr CHR '':'' ! (length (Split addr CHR '':'') - 1) = last (Split addr CHR '':'')"
    using Split_not_Nil [of addr "CHR '':''"] by (simp add: last_conv_nth)
  with True l show ?thesis
    by (simp add: hostPort_def Let_def butlast_conv_take)
next
  case False
  then have l: "\<not> Suc 0 < length (Split addr CHR '':'')" by (simp add: Split_length)
  then have "length (Split addr CHR '':'') = 1"
    using Split_not_Nil [of addr "CHR '':''"] by (cases "Split addr CHR '':''") simp_all
  then obtain p where p: "Split addr CHR '':'' = [p]"
    by (auto simp: length_Suc_conv)
  then have "p = addr" using Join_Split [of addr "CHR '':''"] by simp
  with False l p show ?thesis by (simp add: hostPort_def Let_def)
qed

lemma hostPort_last_colon:
  "case hostPort addr of
     None \<Rightarrow> False
   | Some (host, port) \<Rightarrow>
       (if CHR '':'' \<in> set addr
        then addr = host @ '':'' @ port \<and> CHR '':'' \<notin> set port
        else host = addr \<and> port = [])"
proof (cases "CHR '':'' \<in> set addr")
  case True
  then have "Suc 0 < length (Split addr CHR '':'')" by (simp add: Split_length)
  from Join_butlast [OF this, of "'':''"]
  have "addr = Join (butlast (Split addr CHR '':'')) '':'' @ '':'' @ last (Split addr CHR '':'')"
    using Join_Split [of addr "CHR '':''"] by simp
  with True show ?thesis
    using Split_last [of "CHR '':''" addr] by (simp add: hostPort_char)
next
  case False
  then show ?thesis by (simp add: hostPort_char)
qed

lemma registerCalls_registerAll:
  "registerCalls (registerAll r host port addr sm) =
     map (\<lambda>(key, s). \<lparr>node_Id = service_id s, node_Name = service_name s, node_Host = host,
                       node_Port = port, node_Address = addr\<rparr>) sm"
  by (induction sm) (auto simp: Let_def split: option.splits)

lemma deregisterCalls_deregisterAll:
  "deregisterCalls (deregisterAll r sm) = map (\<lambda>(key, s). (service_name s, service_id s)) sm"
  by (induction sm) (auto simp: Let_def split: option.splits)

lemma registerAll_logs:
  "(key, s) \<in> set sm \<Longrightarrow>
   Register r \<lparr>node_Id = service_id s, node_Name = service_name s, node_Host = host,
               node_Port = port, node_Address = addr\<rparr> = Some e \<Longrightarrow>
   LogErr e \<in> set (registerAll r host port addr sm)"
  by (induction sm) (auto simp: Let_def split: option.splits)

lemma deregisterAll_logs:
  "(key, s) \<in> set sm \<Longrightarrow> Deregister r (service_name s) (service_id s) = Some e \<Longrightarrow>
   LogErr e \<in> set (deregisterAll r sm)"
  by (induction sm) (auto simp: Let_def split: option.splits)

text \<open>
  Claim C8. With a discovery collaborator configured, \<open>start\<close> splits the listen address at
  its last colon into host and port (the whole address and an empty port when it has no
  colon) and calls \<open>Register\<close> once for each entry of the service map, in order, with (id,
  name, host, port, address); \<open>stop\<close> calls \<open>Deregister\<close> once for each entry with (name, id).
  The calls do not depend on what the collaborator answers, and every error it returns is
  logged.
\<close>

theorem discovery_lifecycle:
  assumes "registry server = Some r"
  shows "case hostPort addr of
           None \<Rightarrow> False
         | Some (host, port) \<Rightarrow>
             (if CHR '':'' \<in> set addr
              then addr = host @ '':'' @ port \<and> CHR '':'' \<notin> set port
              else host = addr \<and> port = [])
             \<and> registerCalls (start server addr) =
                 map (\<lambda>(key, s). \<lparr>node_Id = service_id s, node_Name = service_name s,
                                   node_Host = host, node_Port = port, node_Address = addr\<rparr>)
                     (serviceMap server)
             \<and> length (registerCalls (start server addr)) = length (serviceMap server)
             \<and> deregisterCalls (stop server) =
                 map (\<lambda>(key, s). (service_name s, service_id s)) (serviceMap server)
             \<and> length (deregisterCalls (stop server)) = length (serviceMap server)
             \<and> (\<forall>(key, s) \<in> set (serviceMap server). \<forall>e.
                   Register r \<lparr>node_Id = service_id s, node_Name = service_name s,
                               node_Host = host, node_Port = port, node_Address = addr\<rparr> = Some e
                   \<longrightarrow> LogErr e \<in> set (start server addr))
             \<and> (\<forall>(key, s) \<in> set (serviceMap server). \<forall>e.
                   Deregister r (service_name s) (service_id s) = Some e
                   \<longrightarrow> LogErr e \<in> set (stop server))"
proof -
  obtain host port where hp: "hostPort addr = Some (host, port)"
    using hostPort_last_colon [of addr] by (cases "hostPort addr") auto
  have split: "if CHR '':'' \<in> set addr
              then addr = host @ '':'' @ port \<and> CHR '':'' \<notin> set port
              else host = addr \<and> port = []"
    using hostPort_last_colon [of addr] hp by simp
  have st: "start server addr = registerAll r host port addr (serviceMap server)"
    using assms hp by (simp add: start_def)
  have sp: "stop server = deregisterAll r (serviceMap server)"
    using assms by (simp add: stop_def)
  have reg: "registerCalls (start server addr) =
                 map (\<lambda>(key, s). \<lparr>node_Id = service_id s, node_Name = service_name s,
                                   node_Host = host, node_Port = port, node_Address = addr\<rparr>)
                     (serviceMap server)"
    by (simp add: st registerCalls_registerAll)
  have dereg: "deregisterCalls (stop server) =
                 map (\<lambda>(key, s). (service_name s, service_id s)) (serviceMap server)"
    by (simp add: sp deregisterCalls_deregisterAll)
  have l1: "\<forall>(key, s) \<in> set (serviceMap server). \<forall>e.
                   Register r \<lparr>node_Id = service_id s, node_Name = service_name s,
                               node_Host = host, node_Port = port, node_Address = addr\<rparr> = Some e
                   \<longrightarrow> LogErr e \<in> set (start server addr)"
    using registerAll_logs [of _ _ "serviceMap server" r host port addr] by (auto simp: st)
  have l2: "\<forall>(key, s) \<in> set (serviceMap server). \<forall>e.
                   Deregister r (service_name s) (service_id s) = Some e
                   \<longrightarrow> LogErr e \<in> set (stop server)"
    using deregisterAll_logs [of _ _ "serviceMap server" r] by (auto simp: sp)
  have n1: "length (registerCalls (start server addr)) = length (serviceMap server)"
    by (simp add: reg)
  have n2: "length (deregisterCalls (stop server)) = length (serviceMap server)"
    by (simp add: dereg)
  show ?thesis
    unfolding hp using split reg dereg l1 l2 n1 n2 by simp
qed

theorem discovery_lifecycle_witness:
  "registerCalls (start exServer2 ''localhost:8080'') =
     [\<lparr>node_Id = ''id-1'', node_Name = ''svc'', node_Host = ''localhost'',
       node_Port = ''8080'', node_Address = ''localhost:8080''\<rparr>,
      \<lparr>node_Id = ''id-2'', node_Name = ''other'', node_Host = ''localhost'',
       node_Port = ''8080'', node_Address = ''localhost:8080''\<rparr>]
   \<and> deregisterCalls (stop exServer2) = [(''svc'', ''id-1''), (''other'', ''id-2'')]
   \<and> LogErr (PlainError ''etcd down'') \<in> set (start exServer2 ''localhost:8080'')
   \<and> LogErr (PlainError ''etcd down'') \<in> set (stop exServer2)"
proof -
  have hp: "hostPort ''localhost:8080'' = Some (''localhost'', ''8080'')"
    by (simp add: hostPort_def)
  show ?thesis
    using discovery_lifecycle [where server = exServer2 and r = exRegistry
        and addr = "''localhost:8080''"]
    by (simp add: hp exServer2_def NewServer_def exService_def exService2_def exRegistry_def)
qed

section \<open>The gogoproto codec and values that are no messages\<close>

text \<open>
  Claim C10. For a value that does not implement the message interface, each of \<open>Encode\<close>,
  \<open>Decode\<close>, \<open>Marshal\<close> and \<open>Unmarshal\<close> returns what the protobuf library (and, for \<open>Encode\<close>,
  the writer) returns for the nil message: the error made by \<open>errors.New\<close> is dropped. So
  unless the library or the writer produces that very error, none of the four operations
  returns it.
\<close>

theorem gogoproto_mismatch_not_reported:
  "fst (gogo_Encode P w (NotMessage x)) =
     (case proto_Marshal P None of Inl err \<Rightarrow> Some err | Inr data \<Rightarrow> w data)
   \<and> fst (gogo_Decode P buf r (NotMessage x)) = fst (proto_Unmarshal P (buf @ r) None)
   \<and> gogo_Marshal P (NotMessage x) = proto_Marshal P None
   \<and> fst (gogo_Unmarshal P data (NotMessage x)) = fst (proto_Unmarshal P data None)
   \<and> ((\<forall>d. w d \<noteq> Some (errors_New ''does not proto message interface''))
        \<and> proto_Marshal P None \<noteq> Inl (errors_New ''does not proto message interface'')
        \<and> (\<forall>d. fst (proto_Unmarshal P d None)
                  \<noteq> Some (errors_New ''does not proto message interface''))
      \<longrightarrow> fst (gogo_Encode P w (NotMessage x))
             \<noteq> Some (errors_New ''does not proto message interface'')
          \<and> fst (gogo_Decode P buf r (NotMessage x))
             \<noteq> Some (errors_New ''does not proto message interface'')
          \<and> gogo_Marshal P (NotMessage x)
             \<noteq> Inl (errors_New ''does not proto message interface'')
          \<and> fst (gogo_Unmarshal P data (NotMessage x))
             \<noteq> Some (errors_New ''does not proto message interface''))"
  by (auto simp: gogo_Encode_def gogo_Decode_def gogo_Marshal_def gogo_Unmarshal_def
      assertMessage_def Let_def split: sum.splits)

theorem gogoproto_mismatch_not_reported_witness:
  "fst (gogo_Encode exProto (\<lambda>d. None) (NotMessage (3::nat)))
     = Some (PlainError ''proto: Marshal called with nil'')
   \<and> fst (gogo_Decode exProto [] ''xyz'' (NotMessage (3::nat)))
     = Some (PlainError ''proto: nil message'')
   \<and> gogo_Marshal exProto (NotMessage (3::nat))
     = Inl (PlainError ''proto: Marshal called with nil'')
   \<and> fst (gogo_Unmarshal exProto ''xyz'' (NotMessage (3::nat)))
     = Some (PlainError ''proto: nil message'')
   \<and> fst (gogo_Encode exProto (\<lambda>d. None) (NotMessage (3::nat)))
     \<noteq> Some (errors_New ''does not proto message interface'')
   \<and> fst (gogo_Decode exProto [] ''xyz'' (NotMessage (3::nat)))
     \<noteq> Some (errors_New ''does not proto message interface'')
   \<and> gogo_Marshal exProto (NotMessage (3::nat))
     \<noteq> Inl (errors_New ''does not proto message interface'')
   \<and> fst (gogo_Unmarshal exProto ''xyz'' (NotMessage (3::nat)))
     \<noteq> Some (errors_New ''does not proto message interface'')"
  using gogoproto_mismatch_not_reported [where P = exProto and w = "\<lambda>d. None" and x = "3::nat"
      and buf = "[]" and r = "''xyz''" and data = "''xyz''"]
  by (simp add: exProto_def errors_New_def)

end
